theory Spec2Isabelle
  imports Main "HOL-Library.Word"
begin

unbundle bit_operations_syntax

section \<open>The job-state client of yodel (frontend/src/App.tsx)\<close>

text \<open>
  The development follows the second revision of \<^verbatim>\<open>App.tsx\<close> under
  \<^verbatim>\<open>src/frontend/src\<close> (the one with the \<^verbatim>\<open>status\<close> field and the location
  catalogue). React state becomes a record that every handler takes and returns;
  the toasts shown, the console output and the HTTP requests issued are fields of
  that record, so that "no alert", "only logged" and "no retry" are statements
  about them.
\<close>

subsection \<open>JavaScript values that \<^verbatim>\<open>JSON.parse\<close> returns\<close>

text \<open>
  \<^verbatim>\<open>JSON.parse\<close> returns \<^verbatim>\<open>any\<close>: the handlers do not validate it, so the model
  keeps the dynamic value. A number is the 64 bits of its IEEE 754 double. An
  object is the list of its own properties in enumeration order, each key once.
\<close>

datatype json =
    JNull
  | JBool bool
  | JNum "64 word"
  | JStr string
  | JArr "json list"
  | JObj "(string \<times> json) list"

text \<open>\<^verbatim>\<open>ToBoolean\<close>: what \<^verbatim>\<open>if (v)\<close> tests. The numbers \<open>+0\<close>, \<open>-0\<close> and NaN are
  falsy, so is the empty string; every array and every object is truthy, the
  empty ones too.\<close>

definition is_zero :: "64 word \<Rightarrow> bool" where
  "is_zero w = (w AND 0x7FFFFFFFFFFFFFFF = 0)"

definition is_nan :: "64 word \<Rightarrow> bool" where
  "is_nan w = (0x7FF0000000000000 < (w AND 0x7FFFFFFFFFFFFFFF))"

fun truthy :: "json \<Rightarrow> bool" where
  "truthy JNull = False"
| "truthy (JBool b) = b"
| "truthy (JNum w) = (\<not> is_zero w \<and> \<not> is_nan w)"
| "truthy (JStr s) = (s \<noteq> [])"
| "truthy (JArr xs) = True"
| "truthy (JObj kvs) = True"

text \<open>What is thrown: a SyntaxError by \<^verbatim>\<open>JSON.parse\<close>, a TypeError by a read of
  \<^verbatim>\<open>null\<close> or \<^verbatim>\<open>undefined\<close>, by a call of what is no function and by a failed
  conversion to a string, the rejection of a \<^verbatim>\<open>fetch\<close> without response, and
  React's error for an object given as a child.\<close>

datatype failure = SyntaxError | TypeError | NetworkError | InvalidChild

text \<open>Property read \<^verbatim>\<open>v.k\<close> for the names this program reads of parsed data
  (\<^verbatim>\<open>PendingJobs\<close>, \<^verbatim>\<open>CompletedJobs\<close>, \<^verbatim>\<open>Finished\<close>, \<^verbatim>\<open>Failed\<close>, \<^verbatim>\<open>url\<close>,
  \<^verbatim>\<open>reason\<close>, \<^verbatim>\<open>title\<close>, \<^verbatim>\<open>startedOn\<close>, \<^verbatim>\<open>status\<close>), none of which a prototype
  defines: \<open>Inr None\<close> is \<^verbatim>\<open>undefined\<close>, and reading a property of \<^verbatim>\<open>null\<close>
  throws.\<close>

fun read_prop :: "json \<Rightarrow> string \<Rightarrow> failure + json option" where
  "read_prop JNull k = Inl TypeError"
| "read_prop (JObj kvs) k = Inr (map_of kvs k)"
| "read_prop v k = Inr None"

text \<open>\<^verbatim>\<open>if (message.k)\<close> on a message that is not \<^verbatim>\<open>null\<close>: the value when it is
  there and truthy.\<close>

definition fires :: "json \<Rightarrow> string \<Rightarrow> json option" where
  "fires message k =
     (case read_prop message k of
        Inr (Some v) \<Rightarrow> if truthy v then Some v else None
      | _ \<Rightarrow> None)"

subsection \<open>Data model\<close>

text \<open>\<^verbatim>\<open>interface Location\<close>. The path is declared a string; the value stored is
  whatever the server sent (\<^verbatim>\<open>Object.entries\<close> yields \<^verbatim>\<open>any\<close>).\<close>

record Location =
  name :: string
  path :: json

text \<open>\<^verbatim>\<open>status: "Finished" | "InProgress" | { ["Failed"]: string }\<close>\<close>

datatype job_status = Finished | InProgress | Failed (Failed_of: string)

text \<open>\<^verbatim>\<open>interface Job\<close>; the field names carry a prefix, the form has a \<^verbatim>\<open>url\<close> and
  a \<^verbatim>\<open>location\<close> of its own.\<close>

record Job =
  job_url :: string
  job_title :: "string option"
  job_location :: Location
  job_startedOn :: string
  job_status :: job_status

datatype toast_type = success | error | warning

text \<open>The argument of \<^verbatim>\<open>toast({type, title, description, time})\<close>; a description
  of \<open>None\<close> is \<^verbatim>\<open>undefined\<close>.\<close>

record toast_options =
  type :: toast_type
  title :: string
  description :: "json option"
  time :: nat

record CloseEvent =
  code :: nat
  reason :: string
  wasClean :: bool

datatype logged = Value json | Event CloseEvent | Text string | Exception failure

datatype console_entry = Log logged | Error logged

datatype request = GET string | POST string string "string option"

text \<open>The state hooks of \<^verbatim>\<open>App\<close> (\<open>pendingJobs\<close>, \<open>completedJobs\<close>, \<open>locations\<close>,
  \<open>connected\<close>) and of \<^verbatim>\<open>CreateJobForm\<close> (\<open>loading\<close>, \<open>url\<close>, \<open>location\<close>), and
  what the page has done to the outside: toasts, console lines, requests.\<close>

record session =
  pendingJobs :: json
  completedJobs :: json
  locations :: "Location list"
  connected :: bool
  loading :: bool
  url :: string
  location :: "string option"
  toasts :: "toast_options list"
  console :: "console_entry list"
  requests :: "request list"

text \<open>The \<^verbatim>\<open>useState\<close> defaults. \<^verbatim>\<open>locations[0]?.name\<close> is read when the catalogue
  is still empty, so the form starts with no location.\<close>

definition initial :: session where
  "initial = \<lparr> pendingJobs = JArr [], completedJobs = JArr [], locations = [],
     connected = False, loading = False, url = [], location = None,
     toasts = [], console = [], requests = [] \<rparr>"

definition toast :: "toast_options \<Rightarrow> session \<Rightarrow> session" where
  "toast t st = st\<lparr>toasts := toasts st @ [t]\<rparr>"

definition console_log :: "logged \<Rightarrow> session \<Rightarrow> session" where
  "console_log x st = st\<lparr>console := console st @ [Log x]\<rparr>"

definition console_error :: "logged \<Rightarrow> session \<Rightarrow> session" where
  "console_error x st = st\<lparr>console := console st @ [Error x]\<rparr>"

definition fetch :: "request \<Rightarrow> session \<Rightarrow> session" where
  "fetch r st = st\<lparr>requests := requests st @ [r]\<rparr>"

subsection \<open>Rendering the job tables\<close>

text \<open>
  The state setters are called from socket and promise callbacks, where React
  renders the page again before the setter returns; an error of that render
  comes out of the setter. What follows says, for a value put into one of the
  two lists, whether \<^verbatim>\<open>JobList\<close> renders it; the console lines of a render are
  not recorded.
\<close>

text \<open>A property of a value that is not \<^verbatim>\<open>null\<close>; of \<^verbatim>\<open>null\<close> the callers below
  never read one.\<close>

definition field :: "json \<Rightarrow> string \<Rightarrow> json option" where
  "field v k = (case read_prop v k of Inr r \<Rightarrow> r | Inl e \<Rightarrow> None)"

text \<open>Conversion to a string, as in \<^verbatim>\<open>`${job.url}`\<close> and inside
  \<^verbatim>\<open>dayjs(job.startedOn)\<close>, which hands every value but a string, \<^verbatim>\<open>null\<close> and
  \<^verbatim>\<open>undefined\<close> to \<^verbatim>\<open>new Date\<close>. It throws for an object with an own property
  \<^verbatim>\<open>toString\<close>, no parsed value being callable; an array joins its elements.\<close>

fun converts :: "json \<Rightarrow> bool" where
  "converts (JObj kvs) = (map_of kvs ''toString'' = None)"
| "converts (JArr xs) = list_all converts xs"
| "converts v = True"

text \<open>A child of an element: text for a string or a number, nothing for \<^verbatim>\<open>null\<close>
  and the booleans, the children in turn for an array; React throws for an
  object.\<close>

fun valid_child :: "json \<Rightarrow> bool" where
  "valid_child (JObj kvs) = False"
| "valid_child (JArr xs) = list_all valid_child xs"
| "valid_child v = True"

text \<open>The same of a value that may be \<^verbatim>\<open>undefined\<close>, which converts to a string
  and is a child that shows nothing.\<close>

definition defined_and :: "(json \<Rightarrow> bool) \<Rightarrow> json option \<Rightarrow> bool" where
  "defined_and P r = (case r of None \<Rightarrow> True | Some v \<Rightarrow> P v)"

text \<open>\<^verbatim>\<open>job.title ? job.title : job.url\<close>\<close>

definition link_text :: "json \<Rightarrow> json option" where
  "link_text job =
     (case field job ''title'' of
        Some t \<Rightarrow> if truthy t then Some t else field job ''url''
      | None \<Rightarrow> field job ''url'')"

text \<open>Whether \<^verbatim>\<open>jobStatus(job)\<close> returns on the parsed value: it does at once for
  the two strings; past them \<^verbatim>\<open>job.status.Failed\<close> throws when the status is
  \<^verbatim>\<open>undefined\<close> or \<^verbatim>\<open>null\<close>, and the template converts what it reads.\<close>

definition jobStatus_returns :: "json \<Rightarrow> bool" where
  "jobStatus_returns job =
     (case field job ''status'' of
        None \<Rightarrow> False
      | Some status \<Rightarrow>
          if status = JStr ''Finished'' \<or> status = JStr ''InProgress'' then True
          else (case read_prop status ''Failed'' of
                  Inl e \<Rightarrow> False
                | Inr r \<Rightarrow> defined_and converts r))"

text \<open>One row of the table, the callback of \<^verbatim>\<open>jobs.map\<close>: \<^verbatim>\<open>job.url\<close> throws on
  \<^verbatim>\<open>null\<close>; the status cell is there in the completed table only. Every throw
  of the callback is a TypeError.\<close>

definition row_returns :: "bool \<Rightarrow> json \<Rightarrow> bool" where
  "row_returns isCompleted job =
     (if job = JNull then False
      else defined_and converts (field job ''url'')
         \<and> defined_and converts (field job ''startedOn'')
         \<and> (if isCompleted then jobStatus_returns job else True))"

text \<open>The row that the callback returned is then mounted: the link text is the
  one child that comes from the data as it is.\<close>

definition row_mounts :: "json \<Rightarrow> bool" where
  "row_mounts job = defined_and valid_child (link_text job)"

text \<open>\<^verbatim>\<open>JobList\<close>: \<^verbatim>\<open>jobs.map\<close> is a function for an array and for no other
  parsed value. The callback runs over all rows before React mounts any, so a
  TypeError of a row comes before the error for an object child. \<open>None\<close>: the
  table renders.\<close>

definition JobList_render :: "bool \<Rightarrow> json \<Rightarrow> failure option" where
  "JobList_render isCompleted jobs =
     (case jobs of
        JArr xs \<Rightarrow>
          if \<not> list_all (row_returns isCompleted) xs then Some TypeError
          else if \<not> list_all row_mounts xs then Some InvalidChild
          else None
      | _ \<Rightarrow> Some TypeError)"

text \<open>\<^verbatim>\<open>Running jobs ({pendingJobs.length})\<close>, the header over the pending table:
  the read throws on \<^verbatim>\<open>null\<close>. The length is a number for an array and a
  string and \<^verbatim>\<open>undefined\<close> for a number and a boolean; for an object it is what
  the object holds under that name, shown as a child.\<close>

definition count_shown :: "json \<Rightarrow> failure option" where
  "count_shown jobs =
     (case jobs of
        JNull \<Rightarrow> Some TypeError
      | JObj kvs \<Rightarrow>
          if defined_and valid_child (map_of kvs ''length'') then None
          else Some InvalidChild
      | _ \<Rightarrow> None)"

text \<open>The header comes before the table in the page.\<close>

definition pending_render :: "json \<Rightarrow> failure option" where
  "pending_render jobs =
     (case count_shown jobs of
        Some e \<Rightarrow> Some e
      | None \<Rightarrow> JobList_render False jobs)"

subsection \<open>\<^verbatim>\<open>socket.onmessage\<close>\<close>

text \<open>The data of a frame, by what \<^verbatim>\<open>JSON.parse\<close> makes of it.\<close>

datatype frame = Malformed | Wellformed json

definition JSON_parse :: "frame \<Rightarrow> failure + json" where
  "JSON_parse d = (case d of Malformed \<Rightarrow> Inl SyntaxError | Wellformed v \<Rightarrow> Inr v)"

text \<open>A handler returns, or throws with the effects it had until then. Either
  way the page goes on from the state \<open>after\<close> it.\<close>

datatype outcome = Returned session | Threw failure session

fun after :: "outcome \<Rightarrow> session" where
  "after (Returned st) = st"
| "after (Threw e st) = st"

text \<open>Statements in sequence: what follows a throw is not run.\<close>

fun and_then :: "outcome \<Rightarrow> (session \<Rightarrow> outcome) \<Rightarrow> outcome" where
  "and_then (Returned st) f = f st"
| "and_then (Threw e st) f = Threw e st"

text \<open>The two list setters. The value is stored and the page rendered with it;
  the lists that were on the page before have rendered when they were set, so
  the render can fail on the new value only. The pending table has a header
  with the count and no status column (\<^verbatim>\<open>isCompleted={false}\<close>); the completed
  table has the status column.\<close>

definition setPendingJobs :: "json \<Rightarrow> session \<Rightarrow> outcome" where
  "setPendingJobs v st =
     (let st' = st\<lparr>pendingJobs := v\<rparr>
      in case pending_render v of None \<Rightarrow> Returned st' | Some e \<Rightarrow> Threw e st')"

definition setCompletedJobs :: "json \<Rightarrow> session \<Rightarrow> outcome" where
  "setCompletedJobs v st =
     (let st' = st\<lparr>completedJobs := v\<rparr>
      in case JobList_render True v of None \<Rightarrow> Returned st' | Some e \<Rightarrow> Threw e st')"

text \<open>The four \<^verbatim>\<open>if\<close> statements of the handler, in the order of the source.
  They run once the first property read has not thrown, that is, on a message
  that is not \<^verbatim>\<open>null\<close>.\<close>

definition rule_PendingJobs :: "json \<Rightarrow> session \<Rightarrow> outcome" where
  "rule_PendingJobs message st =
     (case fires message ''PendingJobs'' of
        Some v \<Rightarrow> setPendingJobs v st
      | None \<Rightarrow> Returned st)"

definition rule_CompletedJobs :: "json \<Rightarrow> session \<Rightarrow> outcome" where
  "rule_CompletedJobs message st =
     (case fires message ''CompletedJobs'' of
        Some v \<Rightarrow> setCompletedJobs v st
      | None \<Rightarrow> Returned st)"

text \<open>\<^verbatim>\<open>message.Finished\<close> is truthy where \<^verbatim>\<open>message.Finished.url\<close> is read, so
  that read never throws.\<close>

definition rule_Finished :: "json \<Rightarrow> session \<Rightarrow> session" where
  "rule_Finished message st =
     (case fires message ''Finished'' of
        Some v \<Rightarrow>
          toast \<lparr> type = success, title = ''Job complete!'',
                  description = field v ''url'', time = 5000 \<rparr> st
      | None \<Rightarrow> st)"

definition rule_Failed :: "json \<Rightarrow> session \<Rightarrow> session" where
  "rule_Failed message st =
     (case fires message ''Failed'' of
        Some v \<Rightarrow>
          toast \<lparr> type = error, title = ''Job failed!'',
                  description = field v ''reason'', time = 0 \<rparr>
            (console_error (Value v) st)
      | None \<Rightarrow> st)"

definition onmessage :: "frame \<Rightarrow> session \<Rightarrow> outcome" where
  "onmessage update st =
     (case JSON_parse update of
        Inl e \<Rightarrow> Threw e st
      | Inr message \<Rightarrow>
          let st1 = console_log (Value message) st in
          (case read_prop message ''PendingJobs'' of
             Inl e \<Rightarrow> Threw e st1
           | Inr _ \<Rightarrow>
               and_then
                 (and_then (rule_PendingJobs message st1) (rule_CompletedJobs message))
                 (\<lambda>st3. Returned (rule_Failed message (rule_Finished message st3)))))"

text \<open>The single-key envelopes of the push channel.\<close>

definition envelope :: "string \<Rightarrow> json \<Rightarrow> frame" where
  "envelope k v = Wellformed (JObj [(k, v)])"

subsection \<open>\<^verbatim>\<open>socket.onclose\<close>, \<^verbatim>\<open>socket.onerror\<close>, \<^verbatim>\<open>socket.onopen\<close>\<close>

text \<open>\<^verbatim>\<open>setConnected\<close> renders the page with the lists that are on it already.\<close>

definition setConnected :: "bool \<Rightarrow> session \<Rightarrow> session" where
  "setConnected b st = st\<lparr>connected := b\<rparr>"

definition onclose :: "CloseEvent \<Rightarrow> session \<Rightarrow> session" where
  "onclose msg st =
     (let st1 = console_log (Event msg) st in
      if \<not> wasClean msg
      then setConnected False (console_log (Text ''unclean websocket shutdown'') st1)
      else st1)"

definition onerror :: "session \<Rightarrow> session" where
  "onerror st = setConnected False st"

definition onopen :: "session \<Rightarrow> session" where
  "onopen st = setConnected True st"

text \<open>The header line: \<^verbatim>\<open>Server Status: {connected ? `Connected` : `Disconnected`}\<close>.\<close>

definition serverStatus :: "session \<Rightarrow> string" where
  "serverStatus st = (if connected st then ''Connected'' else ''Disconnected'')"

subsection \<open>\<^verbatim>\<open>jobStatus\<close> of \<^verbatim>\<open>JobList\<close>\<close>

text \<open>The function takes a \<^verbatim>\<open>Job\<close>. The first component is the text it returns
  for the status cell, the second what it writes to the console. Past the test
  the declared type leaves only the \<^verbatim>\<open>{Failed: string}\<close> form, of which
  \<^verbatim>\<open>job.status.Failed\<close> is the selector \<open>Failed_of\<close>.\<close>

definition jobStatus :: "Job \<Rightarrow> string \<times> job_status list" where
  "jobStatus job =
     (if job_status job = Finished \<or> job_status job = InProgress
      then (''Finished'', [])
      else (''Failed: '' @ Failed_of (job_status job), [job_status job]))"

subsection \<open>HTTP\<close>

text \<open>What a \<^verbatim>\<open>fetch\<close> promise settles to: a rejection (no response), or a
  response. \<open>json_body\<close> is what \<^verbatim>\<open>resp.json()\<close> resolves to, \<open>None\<close> when it
  rejects because the body is not JSON. \<^verbatim>\<open>resp.ok\<close> is the Fetch API's getter:
  the status is in the range 200 to 299.\<close>

record response =
  status :: nat
  statusText :: string
  json_body :: "json option"

definition ok :: "response \<Rightarrow> bool" where
  "ok resp = (200 \<le> status resp \<and> status resp \<le> 299)"

datatype settled = Rejected | Response response

subsection \<open>\<^verbatim>\<open>handleSubmit\<close> of \<^verbatim>\<open>CreateJobForm\<close>\<close>

definition setLoading :: "bool \<Rightarrow> session \<Rightarrow> session" where
  "setLoading b st = st\<lparr>loading := b\<rparr>"

definition setUrl :: "string \<Rightarrow> session \<Rightarrow> session" where
  "setUrl u st = st\<lparr>url := u\<rparr>"

text \<open>The alert for a response that is not ok, once its body has been parsed to
  \<open>res\<close>. Both tests are on the status text.\<close>

definition rejection_toast :: "response \<Rightarrow> json \<Rightarrow> toast_options" where
  "rejection_toast resp res =
     (let title0 = ''Unexpected job startup error!'';
          type0 = error;
          (title1, type1) =
            (if statusText resp = ''Conflict''
             then (''Conflict: job was already requested'', warning)
             else (title0, type0));
          title2 =
            (if statusText resp = ''Unprocessable Entity''
             then ''Invalid Video Requested''
             else title1)
      in \<lparr> type = type1, title = title2, description = Some res, time = 0 \<rparr>)"

text \<open>The whole promise chain, by what the request settles to. A body that is
  not JSON rejects the inner promise, which nothing handles: no toast. The
  \<^verbatim>\<open>finally\<close> clears the busy flag in every case.\<close>

definition handleSubmit :: "settled \<Rightarrow> session \<Rightarrow> session" where
  "handleSubmit r st =
     (let st1 = fetch (POST ''/jobs'' (url st) (location st)) (setLoading True st);
          st2 =
            (case r of
               Rejected \<Rightarrow> console_error (Exception NetworkError) st1
             | Response resp \<Rightarrow>
                 if ok resp then setUrl [] st1
                 else (case json_body resp of
                         None \<Rightarrow> st1
                       | Some res \<Rightarrow> toast (rejection_toast resp res) st1))
      in setLoading False st2)"

subsection \<open>The snapshot fetches of \<^verbatim>\<open>App\<close>\<close>

text \<open>The three fetch effects run once, when the component mounts; the paths are
  relative to \<^verbatim>\<open>API_URI\<close>. No other place of \<^verbatim>\<open>App\<close> issues a GET.\<close>

definition mount :: "session \<Rightarrow> session" where
  "mount st =
     fetch (GET ''/locations'') (fetch (GET ''/completed-jobs'') (fetch (GET ''/jobs'') st))"

text \<open>\<^verbatim>\<open>fetch(...).then((resp) => resp.json())\<close>: the data, or the reason of the
  rejection. The status of the response is not looked at.\<close>

definition then_json :: "settled \<Rightarrow> failure + json" where
  "then_json r =
     (case r of
        Rejected \<Rightarrow> Inl NetworkError
      | Response resp \<Rightarrow>
          (case json_body resp of None \<Rightarrow> Inl SyntaxError | Some data \<Rightarrow> Inr data))"

text \<open>The rest of the chain: the setter in the second \<^verbatim>\<open>then\<close>, and the \<^verbatim>\<open>catch\<close>
  that logs a rejection of the fetch, of \<^verbatim>\<open>resp.json()\<close> or of the setter, whose
  render throws on data that is not a list of jobs.\<close>

definition caught :: "outcome \<Rightarrow> session" where
  "caught r = (case r of Returned st \<Rightarrow> st | Threw e st \<Rightarrow> console_error (Exception e) st)"

definition jobs_fetched :: "settled \<Rightarrow> session \<Rightarrow> session" where
  "jobs_fetched r st =
     (case then_json r of
        Inr data \<Rightarrow> caught (setPendingJobs data st)
      | Inl err \<Rightarrow> console_error (Exception err) st)"

definition completed_jobs_fetched :: "settled \<Rightarrow> session \<Rightarrow> session" where
  "completed_jobs_fetched r st =
     (case then_json r of
        Inr data \<Rightarrow> caught (setCompletedJobs data st)
      | Inl err \<Rightarrow> console_error (Exception err) st)"

text \<open>Decimal digits of an array index.\<close>

fun decimal :: "nat \<Rightarrow> string" where
  "decimal n =
     (if n < 10 then [char_of (48 + n)]
      else decimal (n div 10) @ [char_of (48 + n mod 10)])"

text \<open>\<^verbatim>\<open>Object.entries\<close>: throws on \<^verbatim>\<open>null\<close>; a number or a boolean has no own
  property, a string has its characters and an array its elements, by index.\<close>

definition Object_entries :: "json \<Rightarrow> failure + (string \<times> json) list" where
  "Object_entries data =
     (case data of
        JNull \<Rightarrow> Inl TypeError
      | JBool b \<Rightarrow> Inr []
      | JNum w \<Rightarrow> Inr []
      | JStr s \<Rightarrow> Inr (map (\<lambda>i. (decimal i, JStr [s ! i])) [0..<length s])
      | JArr xs \<Rightarrow> Inr (map (\<lambda>i. (decimal i, xs ! i)) [0..<length xs])
      | JObj kvs \<Rightarrow> Inr kvs)"

text \<open>\<^verbatim>\<open>setLocations\<close> brings no job list: the catalogue it stores has a string
  for every name, and the select shows the names only.\<close>

definition locations_fetched :: "settled \<Rightarrow> session \<Rightarrow> session" where
  "locations_fetched r st =
     (case then_json r of
        Inr data \<Rightarrow>
          (case Object_entries data of
             Inr entries \<Rightarrow>
               st\<lparr>locations := map (\<lambda>(n, p). \<lparr> name = n, path = p \<rparr>) entries\<rparr>
           | Inl err \<Rightarrow> console_error (Exception err) st)
      | Inl err \<Rightarrow> console_error (Exception err) st)"

text \<open>The toasts that a message adds: those past the ones shown before.\<close>

definition added_toasts :: "session \<Rightarrow> outcome \<Rightarrow> toast_options list" where
  "added_toasts st r = drop (length (toasts st)) (toasts (after r))"

section \<open>Properties\<close>

lemma fires_envelope_same:
  "truthy v \<Longrightarrow> fires (JObj [(k, v)]) k = Some v"
  by (simp add: fires_def)

lemma fires_envelope_other:
  "k' \<noteq> k \<Longrightarrow> fires (JObj [(k, v)]) k' = None"
  by (simp add: fires_def)

lemmas rules_defs =
  rule_PendingJobs_def rule_CompletedJobs_def rule_Finished_def rule_Failed_def
  setPendingJobs_def setCompletedJobs_def

lemma pending_render_array:
  "pending_render (JArr xs) = JobList_render False (JArr xs)"
  by (simp add: pending_render_def count_shown_def)

text \<open>A job as \<^verbatim>\<open>interface Job\<close> declares it renders in either table: the url and
  the date are strings, the title is a string or absent, and the status is one
  of the two strings or an object with a string under \<^verbatim>\<open>Failed\<close>.\<close>

lemma declared_job_renders:
  assumes "map_of kvs ''url'' = Some (JStr u)"
    and "map_of kvs ''title'' = None \<or> map_of kvs ''title'' = Some (JStr t)"
    and "map_of kvs ''startedOn'' = Some (JStr d)"
  shows "row_returns False (JObj kvs)"
    and "row_mounts (JObj kvs)"
    and "map_of kvs ''status'' = Some (JStr ''Finished'')
           \<or> map_of kvs ''status'' = Some (JStr ''InProgress'')
           \<or> map_of kvs ''status'' = Some (JObj [(''Failed'', JStr r)])
         \<Longrightarrow> row_returns True (JObj kvs)"
  using assms
  by (auto simp add: row_returns_def row_mounts_def link_text_def field_def
      defined_and_def jobStatus_returns_def)

text \<open>
  C1. Whatever the pending list held before, after the message
  \<open>PendingJobs(list)\<close> the pending list equals \<open>list\<close>, element for element: a
  full replace, in which nothing of the prior content survives unless it is in
  \<open>list\<close>. The empty list replaces too, an empty array being truthy. When the
  table renders \<open>list\<close>, as it does every list of well-formed jobs, the handler
  returns and its only other effect is the console line of the message; when it
  does not, the handler throws out of the setter, with the same state.
\<close>

theorem pending_replace:
  "pendingJobs (after (onmessage (envelope ''PendingJobs'' (JArr list)) st)) = JArr list
   \<and> (JobList_render False (JArr list) = None \<longrightarrow>
        onmessage (envelope ''PendingJobs'' (JArr list)) st =
          Returned (st\<lparr> pendingJobs := JArr list,
                         console := console st @
                           [Log (Value (JObj [(''PendingJobs'', JArr list)]))] \<rparr>))
   \<and> (JobList_render False (JArr list) = Some e \<longrightarrow>
        onmessage (envelope ''PendingJobs'' (JArr list)) st =
          Threw e
            (st\<lparr> pendingJobs := JArr list,
                 console := console st @
                   [Log (Value (JObj [(''PendingJobs'', JArr list)]))] \<rparr>))"
  by (simp add: onmessage_def envelope_def JSON_parse_def rules_defs
      fires_envelope_same fires_envelope_other console_log_def Let_def
      pending_render_array split: option.splits)

theorem pending_replace_witness:
  "JobList_render False
     (JArr [JObj [(''url'', JStr ''v2''), (''title'', JStr ''a video''),
            (''location'', JObj [(''name'', JStr ''home''), (''path'', JStr ''/data'')]),
            (''startedOn'', JStr ''2020-05-01T10:00:00Z''),
            (''status'', JStr ''InProgress'')]]) = None
   \<and> onmessage
       (envelope ''PendingJobs''
         (JArr [JObj [(''url'', JStr ''v2''), (''title'', JStr ''a video''),
            (''location'', JObj [(''name'', JStr ''home''), (''path'', JStr ''/data'')]),
            (''startedOn'', JStr ''2020-05-01T10:00:00Z''),
            (''status'', JStr ''InProgress'')]]))
       (initial\<lparr>pendingJobs := JArr [JObj [(''url'', JStr ''v1'')]]\<rparr>)
     = Returned
         (initial\<lparr> pendingJobs :=
             JArr [JObj [(''url'', JStr ''v2''), (''title'', JStr ''a video''),
            (''location'', JObj [(''name'', JStr ''home''), (''path'', JStr ''/data'')]),
            (''startedOn'', JStr ''2020-05-01T10:00:00Z''),
            (''status'', JStr ''InProgress'')]],
           console :=
             [Log (Value (JObj [(''PendingJobs'',
                JArr [JObj [(''url'', JStr ''v2''), (''title'', JStr ''a video''),
            (''location'', JObj [(''name'', JStr ''home''), (''path'', JStr ''/data'')]),
            (''startedOn'', JStr ''2020-05-01T10:00:00Z''),
            (''status'', JStr ''InProgress'')]])]))] \<rparr>)
   \<and> onmessage (envelope ''PendingJobs'' (JArr [])) 
       (initial\<lparr>pendingJobs := JArr [JObj [(''url'', JStr ''v1'')]]\<rparr>)
     = Returned
         (initial\<lparr> pendingJobs := JArr [],
                      console := [Log (Value (JObj [(''PendingJobs'', JArr [])]))] \<rparr>)
   \<and> JobList_render False (JArr [JNull]) = Some TypeError
   \<and> onmessage (envelope ''PendingJobs'' (JArr [JNull])) initial
     = Threw TypeError
         (initial\<lparr> pendingJobs := JArr [JNull],
                      console := [Log (Value (JObj [(''PendingJobs'', JArr [JNull])]))] \<rparr>)"
  using pending_replace
      [of "[JObj [(''url'', JStr ''v2''), (''title'', JStr ''a video''),
            (''location'', JObj [(''name'', JStr ''home''), (''path'', JStr ''/data'')]),
            (''startedOn'', JStr ''2020-05-01T10:00:00Z''),
            (''status'', JStr ''InProgress'')]]"
          "initial\<lparr>pendingJobs := JArr [JObj [(''url'', JStr ''v1'')]]\<rparr>"]
    pending_replace
      [of "[]" "initial\<lparr>pendingJobs := JArr [JObj [(''url'', JStr ''v1'')]]\<rparr>"]
    pending_replace [of "[JNull]" initial TypeError]
  by (simp add: JobList_render_def row_returns_def row_mounts_def field_def
      link_text_def defined_and_def initial_def)

text \<open>
  C2 as stated fails: the handler touches the connection flag only when the
  close was not clean. A clean close that arrives while the page shows
  "Connected" leaves it at "Connected".
\<close>

theorem clean_close_counterexample:
  "connected (onclose \<lparr> code = 1000, reason = [], wasClean = True \<rparr> (onopen initial)) \<noteq> False
   \<and> serverStatus (onclose \<lparr> code = 1000, reason = [], wasClean = True \<rparr> (onopen initial))
       = ''Connected''"
  by (simp add: onclose_def onopen_def setConnected_def console_log_def initial_def
      serverStatus_def)

text \<open>
  C2, amended. A close event with the clean flag set leaves the connection state
  as it was before the event: Disconnected stays Disconnected and Connected
  stays Connected; the handler does nothing but write the event to the console.
  A close event with the flag unset leaves the state Disconnected, whatever it
  was, and writes two console lines. A transport error leaves the state
  Disconnected and does nothing else.
\<close>

theorem clean_close_keeps_state:
  "(wasClean msg \<longrightarrow>
      onclose msg st = st\<lparr>console := console st @ [Log (Event msg)]\<rparr>
      \<and> connected (onclose msg st) = connected st
      \<and> serverStatus (onclose msg st) = serverStatus st)
   \<and> (\<not> wasClean msg \<longrightarrow>
      onclose msg st =
        st\<lparr> connected := False,
             console := console st @
               [Log (Event msg), Log (Text ''unclean websocket shutdown'')] \<rparr>
      \<and> connected (onclose msg st) = False
      \<and> serverStatus (onclose msg st) = ''Disconnected'')
   \<and> onerror st = st\<lparr>connected := False\<rparr>
   \<and> connected (onerror st) = False
   \<and> serverStatus (onerror st) = ''Disconnected''"
  by (simp add: onclose_def onerror_def setConnected_def console_log_def serverStatus_def)

theorem clean_close_keeps_state_witness:
  "wasClean \<lparr> code = 1000, reason = [], wasClean = True \<rparr>
   \<and> connected (onclose \<lparr> code = 1000, reason = [], wasClean = True \<rparr> (onopen initial))
       = connected (onopen initial)
   \<and> serverStatus (onclose \<lparr> code = 1000, reason = [], wasClean = True \<rparr> (onopen initial))
       = ''Connected''
   \<and> serverStatus (onclose \<lparr> code = 1000, reason = [], wasClean = True \<rparr> initial)
       = ''Disconnected''
   \<and> \<not> wasClean \<lparr> code = 1006, reason = [], wasClean = False \<rparr>
   \<and> serverStatus (onclose \<lparr> code = 1006, reason = [], wasClean = False \<rparr> (onopen initial))
       = ''Disconnected''
   \<and> serverStatus (onerror (onopen initial)) = ''Disconnected''"
  using clean_close_keeps_state [of "\<lparr> code = 1000, reason = [], wasClean = True \<rparr>" "onopen initial"]
    clean_close_keeps_state [of "\<lparr> code = 1000, reason = [], wasClean = True \<rparr>" initial]
    clean_close_keeps_state [of "\<lparr> code = 1006, reason = [], wasClean = False \<rparr>" "onopen initial"]
  by (simp add: initial_def serverStatus_def onopen_def setConnected_def)

text \<open>
  C3. The message \<open>Finished(ref)\<close> leaves the pending and the completed list as
  they were and emits exactly one toast, of type success, whose description is
  the \<open>url\<close> of \<open>ref\<close>. The message \<open>Failed(ref)\<close> leaves both lists as they were
  and emits exactly one toast, of type error, whose description is the \<open>reason\<close>
  of \<open>ref\<close>. Apart from the toast, only the console changes.
\<close>

theorem terminal_events_only_notify:
  "onmessage (envelope ''Finished'' (JObj ref)) st =
     Returned (st\<lparr> toasts := toasts st @
                      [\<lparr> type = success, title = ''Job complete!'',
                         description = map_of ref ''url'', time = 5000 \<rparr>],
                    console := console st @
                      [Log (Value (JObj [(''Finished'', JObj ref)]))] \<rparr>)
   \<and> onmessage (envelope ''Failed'' (JObj ref)) st =
     Returned (st\<lparr> toasts := toasts st @
                      [\<lparr> type = error, title = ''Job failed!'',
                         description = map_of ref ''reason'', time = 0 \<rparr>],
                    console := console st @
                      [Log (Value (JObj [(''Failed'', JObj ref)])),
                       Error (Value (JObj ref))] \<rparr>)
   \<and> pendingJobs (after (onmessage (envelope ''Finished'' (JObj ref)) st)) = pendingJobs st
   \<and> completedJobs (after (onmessage (envelope ''Finished'' (JObj ref)) st)) = completedJobs st
   \<and> pendingJobs (after (onmessage (envelope ''Failed'' (JObj ref)) st)) = pendingJobs st
   \<and> completedJobs (after (onmessage (envelope ''Failed'' (JObj ref)) st)) = completedJobs st"
  by (simp add: onmessage_def envelope_def JSON_parse_def rules_defs
      fires_envelope_same fires_envelope_other console_log_def console_error_def
      toast_def field_def)

text \<open>
  C4. For
  every \<open>Finished\<close> event that is one toast with a duration of 5000 ms; for every
  \<open>Failed\<close> event it is one toast with duration 0 and type error.
\<close>

theorem terminal_toast_durations:
  "map time (added_toasts st (onmessage (envelope ''Finished'' (JObj ref)) st)) = [5000]
   \<and> map time (added_toasts st (onmessage (envelope ''Failed'' (JObj ref)) st)) = [0]
   \<and> map type (added_toasts st (onmessage (envelope ''Failed'' (JObj ref)) st)) = [error]"
  by (simp add: added_toasts_def onmessage_def envelope_def JSON_parse_def rules_defs
      fires_envelope_same fires_envelope_other console_log_def console_error_def
      toast_def)

text \<open>
  C5 as stated fails: the conflict is recognised by the status text, not by the
  status. A 409 response over HTTP/2 has an empty status text and yields the
  generic error alert; a 409 response whose body is not JSON yields no alert.
\<close>

theorem conflict_409_counterexample:
  "toasts (handleSubmit
             (Response \<lparr> status = 409, statusText = [], json_body = Some (JStr ''exists'') \<rparr>)
             (initial\<lparr>url := ''http://x'', location := Some ''loc''\<rparr>))
     = [\<lparr> type = error, title = ''Unexpected job startup error!'',
          description = Some (JStr ''exists''), time = 0 \<rparr>]
   \<and> toasts (handleSubmit
             (Response \<lparr> status = 409, statusText = ''Conflict'', json_body = None \<rparr>)
             (initial\<lparr>url := ''http://x'', location := Some ''loc''\<rparr>))
     = []"
  by (simp add: handleSubmit_def ok_def rejection_toast_def toast_def fetch_def
      setLoading_def initial_def Let_def)

text \<open>
  C5, amended. For every submission whose response has a status outside 200 to
  299 (409 among them), the status text "Conflict" and a body that parses as
  JSON, exactly one alert is added: a warning with the title
  "Conflict: job was already requested", the parsed body as description and
  duration 0. The URL input keeps the submitted value; apart from the alert only
  the request is recorded and the busy flag is cleared.
\<close>

theorem conflict_status_text_warning:
  "\<not> (200 \<le> status resp \<and> status resp \<le> 299) \<Longrightarrow>
   statusText resp = ''Conflict'' \<Longrightarrow> json_body resp = Some res \<Longrightarrow>
     handleSubmit (Response resp) st =
       st\<lparr> loading := False,
            toasts := toasts st @
              [\<lparr> type = warning, title = ''Conflict: job was already requested'',
                 description = Some res, time = 0 \<rparr>],
            requests := requests st @ [POST ''/jobs'' (url st) (location st)] \<rparr>
     \<and> url (handleSubmit (Response resp) st) = url st"
  by (auto simp add: handleSubmit_def ok_def rejection_toast_def toast_def fetch_def
      setLoading_def Let_def)

theorem conflict_status_text_warning_witness:
  "\<not> (200 \<le> status \<lparr> status = 409, statusText = ''Conflict'',
                            json_body = Some (JStr ''exists'') \<rparr>
        \<and> status \<lparr> status = 409, statusText = ''Conflict'',
                     json_body = Some (JStr ''exists'') \<rparr> \<le> 299)
   \<and> toasts (handleSubmit
             (Response \<lparr> status = 409, statusText = ''Conflict'',
                         json_body = Some (JStr ''exists'') \<rparr>)
             (initial\<lparr>url := ''http://x'', location := Some ''loc''\<rparr>))
     = [\<lparr> type = warning, title = ''Conflict: job was already requested'',
          description = Some (JStr ''exists''), time = 0 \<rparr>]
   \<and> url (handleSubmit
             (Response \<lparr> status = 409, statusText = ''Conflict'',
                         json_body = Some (JStr ''exists'') \<rparr>)
             (initial\<lparr>url := ''http://x'', location := Some ''loc''\<rparr>))
     = ''http://x''"
  using conflict_status_text_warning
    [of "\<lparr> status = 409, statusText = ''Conflict'', json_body = Some (JStr ''exists'') \<rparr>"
        "JStr ''exists''" "initial\<lparr>url := ''http://x'', location := Some ''loc''\<rparr>"]
  by (simp add: initial_def)

text \<open>
  C6. For every submission whose response has a status from 200 to 299, the URL
  input is set to the empty string and no alert is added. The submission puts
  nothing into the pending or the completed list: besides the input, only the
  request is recorded and the busy flag is cleared.
\<close>

theorem submit_success_clears_input:
  "200 \<le> status resp \<Longrightarrow> status resp \<le> 299 \<Longrightarrow>
     handleSubmit (Response resp) st =
       st\<lparr> loading := False, url := [],
            requests := requests st @ [POST ''/jobs'' (url st) (location st)] \<rparr>
     \<and> url (handleSubmit (Response resp) st) = []
     \<and> toasts (handleSubmit (Response resp) st) = toasts st
     \<and> pendingJobs (handleSubmit (Response resp) st) = pendingJobs st
     \<and> completedJobs (handleSubmit (Response resp) st) = completedJobs st"
  by (simp add: handleSubmit_def ok_def fetch_def setLoading_def setUrl_def Let_def)

theorem submit_success_clears_input_witness:
  "200 \<le> status \<lparr> status = 201, statusText = ''Created'', json_body = None \<rparr>
   \<and> status \<lparr> status = 201, statusText = ''Created'', json_body = None \<rparr> \<le> 299
   \<and> url (handleSubmit
          (Response \<lparr> status = 201, statusText = ''Created'', json_body = None \<rparr>)
          (initial\<lparr>url := ''http://x'', location := Some ''loc''\<rparr>)) = []
   \<and> toasts (handleSubmit
          (Response \<lparr> status = 201, statusText = ''Created'', json_body = None \<rparr>)
          (initial\<lparr>url := ''http://x'', location := Some ''loc''\<rparr>)) = []"
  using submit_success_clears_input
    [of "\<lparr> status = 201, statusText = ''Created'', json_body = None \<rparr>"
        "initial\<lparr>url := ''http://x'', location := Some ''loc''\<rparr>"]
  by (simp add: initial_def)

text \<open>A snapshot fetch fails when the request is rejected (network) or the body
  of the response is not JSON (parse), and in no other case.\<close>

lemma then_json_fails:
  "then_json r = Inl err \<longleftrightarrow>
     (r = Rejected \<and> err = NetworkError)
     \<or> (\<exists>resp. r = Response resp \<and> json_body resp = None \<and> err = SyntaxError)"
  by (auto simp add: then_json_def split: settled.splits option.splits)

text \<open>
  C7. When one of the three snapshot fetches (pending jobs, completed jobs,
  locations) fails with a network or a parse error, its handler adds one error
  line to the console and changes nothing else: the three lists are as before,
  no alert is added and no request is issued, so there is no retry. Arriving at
  the freshly mounted page, the failure leaves the corresponding list empty.
\<close>

theorem snapshot_failure_only_logged:
  "then_json r = Inl err \<Longrightarrow>
     jobs_fetched r st = st\<lparr>console := console st @ [Error (Exception err)]\<rparr>
     \<and> completed_jobs_fetched r st = st\<lparr>console := console st @ [Error (Exception err)]\<rparr>
     \<and> locations_fetched r st = st\<lparr>console := console st @ [Error (Exception err)]\<rparr>
     \<and> toasts (jobs_fetched r st) = toasts st
     \<and> toasts (completed_jobs_fetched r st) = toasts st
     \<and> toasts (locations_fetched r st) = toasts st
     \<and> requests (jobs_fetched r st) = requests st
     \<and> requests (completed_jobs_fetched r st) = requests st
     \<and> requests (locations_fetched r st) = requests st
     \<and> pendingJobs (jobs_fetched r (mount initial)) = JArr []
     \<and> completedJobs (completed_jobs_fetched r (mount initial)) = JArr []
     \<and> locations (locations_fetched r (mount initial)) = []"
  by (simp add: jobs_fetched_def completed_jobs_fetched_def locations_fetched_def
      console_error_def mount_def fetch_def initial_def)

theorem snapshot_failure_only_logged_witness:
  "then_json Rejected = Inl NetworkError
   \<and> then_json (Response \<lparr> status = 200, statusText = ''OK'', json_body = None \<rparr>)
       = Inl SyntaxError
   \<and> jobs_fetched Rejected (mount initial)
       = (mount initial)\<lparr>console := [Error (Exception NetworkError)]\<rparr>
   \<and> locations_fetched (Response \<lparr> status = 200, statusText = ''OK'', json_body = None \<rparr>)
         (mount initial)
       = (mount initial)\<lparr>console := [Error (Exception SyntaxError)]\<rparr>"
  using snapshot_failure_only_logged [of Rejected NetworkError "mount initial"]
    snapshot_failure_only_logged
      [of "Response \<lparr> status = 200, statusText = ''OK'', json_body = None \<rparr>"
          SyntaxError "mount initial"]
  by (simp add: then_json_def mount_def fetch_def initial_def)

text \<open>
  C8. Processing the same \<open>PendingJobs(list)\<close> message twice in a row ends with
  the same pending list as processing it once; the completed list, the toasts
  and the connection flag are the same too. The second delivery only adds its
  console line.
\<close>

theorem pending_redelivery_idempotent:
  "(let m = envelope ''PendingJobs'' (JArr list);
        once = after (onmessage m st);
        twice = after (onmessage m once)
    in pendingJobs twice = pendingJobs once
       \<and> pendingJobs twice = JArr list
       \<and> twice = once\<lparr>console := console once @
                          [Log (Value (JObj [(''PendingJobs'', JArr list)]))]\<rparr>)"
  by (simp add: onmessage_def envelope_def JSON_parse_def rules_defs
      fires_envelope_same fires_envelope_other console_log_def Let_def
      split: option.splits)

text \<open>
  C9. The status cell of a job reads "Finished" when the job's status is
  \<open>Finished\<close> and also when it is \<open>InProgress\<close>; for a status \<open>Failed(reason)\<close> it
  reads "Failed: " followed by the reason. So the text is "Finished" exactly for
  the first two forms.
\<close>

theorem jobStatus_text:
  "fst (jobStatus (job\<lparr>job_status := Finished\<rparr>)) = ''Finished''
   \<and> fst (jobStatus (job\<lparr>job_status := InProgress\<rparr>)) = ''Finished''
   \<and> fst (jobStatus (job\<lparr>job_status := Failed r\<rparr>)) = ''Failed: '' @ r
   \<and> (fst (jobStatus job) = ''Finished'')
       = (job_status job = Finished \<or> job_status job = InProgress)"
  by (cases "job_status job") (simp_all add: jobStatus_def)

text \<open>What \<open>fires\<close> is on an object: the value stored under the key, when there
  is one and it is truthy. On a number, a boolean, a string or an array none of
  the four keys is there.\<close>

lemma fires_object:
  "fires (JObj kvs) k = Some v \<longleftrightarrow> map_of kvs k = Some v \<and> truthy v"
  by (auto simp add: fires_def split: option.splits)

lemma fires_no_object:
  "fires JNull k = None" "fires (JBool b) k = None" "fires (JNum w) k = None"
  "fires (JStr s) k = None" "fires (JArr xs) k = None"
  by (simp_all add: fires_def)

lemma read_prop_not_null:
  "message \<noteq> JNull \<Longrightarrow> \<exists>r. read_prop message k = Inr r"
  by (cases message) simp_all

text \<open>
  C10 as stated fails: the rules are statements in sequence, and a list setter
  throws when the value it is given does not render. A truthy \<open>PendingJobs\<close>
  that is no array stops the handler before the \<open>Failed\<close> rule, and a completed
  job without status stops it before the \<open>Finished\<close> rule: the key of the later
  rule is there and truthy, and no alert is shown.
\<close>

theorem rules_independent_counterexample:
  "onmessage
     (Wellformed (JObj [(''PendingJobs'', JBool True),
                        (''Failed'', JObj [(''reason'', JStr ''boom'')])]))
     initial
     = Threw TypeError
         (initial\<lparr> pendingJobs := JBool True,
              console :=
                [Log (Value (JObj [(''PendingJobs'', JBool True),
                                   (''Failed'', JObj [(''reason'', JStr ''boom'')])]))] \<rparr>)
   \<and> toasts (after (onmessage
       (Wellformed (JObj [(''PendingJobs'', JBool True),
                          (''Failed'', JObj [(''reason'', JStr ''boom'')])]))
       initial)) = []
   \<and> toasts (after (onmessage
       (Wellformed (JObj [(''CompletedJobs'', JArr [JObj [(''url'', JStr ''v1'')]]),
                          (''Finished'', JObj [(''url'', JStr ''v1'')])]))
       initial)) = []"
  by (simp add: onmessage_def JSON_parse_def rules_defs fires_def console_log_def
      JobList_render_def row_returns_def row_mounts_def jobStatus_returns_def field_def
      link_text_def defined_and_def initial_def pending_render_def count_shown_def)

text \<open>
  C10, amended. For every inbound frame: one that does not parse makes the
  handler throw with nothing changed, and one that parses to \<open>null\<close> makes it
  throw after the console line; both lists and the alerts are as before.
  Otherwise the four rules are tried in the fixed order \<open>PendingJobs\<close>,
  \<open>CompletedJobs\<close>, \<open>Finished\<close>, \<open>Failed\<close>, each on its own key alone (there and
  truthy). As long as every list value that is set renders, every matching rule
  fires within the one message and the handler returns: the pending list is the
  value under \<open>PendingJobs\<close> or else as before, the completed list the value
  under \<open>CompletedJobs\<close> or else as before, and the alerts added are the success
  alert if \<open>Finished\<close> matches, followed by the error alert if \<open>Failed\<close> matches.
  An envelope in which none of the four keys holds a truthy value leaves both
  lists unchanged and adds no alert. When a list value that is set does not
  render, the handler throws at that rule: the value is stored, and the later
  rules do not fire.
\<close>

theorem rules_fire_in_order:
  "onmessage Malformed st = Threw SyntaxError st
   \<and> onmessage (Wellformed JNull) st =
       Threw TypeError (st\<lparr>console := console st @ [Log (Value JNull)]\<rparr>)
   \<and> (message \<noteq> JNull \<longrightarrow>
        (case fires message ''PendingJobs'' of
           Some v \<Rightarrow> pending_render v = None | None \<Rightarrow> True) \<longrightarrow>
        (case fires message ''CompletedJobs'' of
           Some v \<Rightarrow> JobList_render True v = None | None \<Rightarrow> True) \<longrightarrow>
        onmessage (Wellformed message) st =
          Returned
            (st\<lparr> pendingJobs :=
                   (case fires message ''PendingJobs'' of
                      Some v \<Rightarrow> v | None \<Rightarrow> pendingJobs st),
                 completedJobs :=
                   (case fires message ''CompletedJobs'' of
                      Some v \<Rightarrow> v | None \<Rightarrow> completedJobs st),
                 toasts := toasts st
                   @ (case fires message ''Finished'' of
                        Some v \<Rightarrow> [\<lparr> type = success, title = ''Job complete!'',
                                     description = field v ''url'', time = 5000 \<rparr>]
                      | None \<Rightarrow> [])
                   @ (case fires message ''Failed'' of
                        Some v \<Rightarrow> [\<lparr> type = error, title = ''Job failed!'',
                                     description = field v ''reason'', time = 0 \<rparr>]
                      | None \<Rightarrow> []),
                 console := console st @ [Log (Value message)]
                   @ (case fires message ''Failed'' of
                        Some v \<Rightarrow> [Error (Value v)]
                      | None \<Rightarrow> []) \<rparr>))
   \<and> (message \<noteq> JNull \<longrightarrow>
        fires message ''PendingJobs'' = None \<and> fires message ''CompletedJobs'' = None
          \<and> fires message ''Finished'' = None \<and> fires message ''Failed'' = None \<longrightarrow>
        onmessage (Wellformed message) st =
          Returned (st\<lparr>console := console st @ [Log (Value message)]\<rparr>))
   \<and> (message \<noteq> JNull \<longrightarrow>
        fires message ''PendingJobs'' = Some p \<longrightarrow> pending_render p = Some e \<longrightarrow>
        onmessage (Wellformed message) st =
          Threw e
            (st\<lparr> pendingJobs := p,
                 console := console st @ [Log (Value message)] \<rparr>))
   \<and> (message \<noteq> JNull \<longrightarrow>
        (case fires message ''PendingJobs'' of
           Some v \<Rightarrow> pending_render v = None | None \<Rightarrow> True) \<longrightarrow>
        fires message ''CompletedJobs'' = Some c \<longrightarrow> JobList_render True c = Some e \<longrightarrow>
        onmessage (Wellformed message) st =
          Threw e
            (st\<lparr> pendingJobs :=
                   (case fires message ''PendingJobs'' of
                      Some v \<Rightarrow> v | None \<Rightarrow> pendingJobs st),
                 completedJobs := c,
                 console := console st @ [Log (Value message)] \<rparr>))"
proof (cases "message = JNull")
  case True
  then show ?thesis
    by (simp add: onmessage_def JSON_parse_def console_log_def)
next
  case False
  then obtain r where r: "read_prop message ''PendingJobs'' = Inr r"
    using read_prop_not_null by blast
  have null: "read_prop JNull ''PendingJobs'' = Inl TypeError"
    by simp
  show ?thesis
    by (simp add: onmessage_def JSON_parse_def r null rules_defs console_log_def
        console_error_def toast_def Let_def split: option.splits)
qed

theorem rules_fire_in_order_witness:
  "JObj [(''PendingJobs'', JArr [JObj [(''url'', JStr ''v2''), (''startedOn'', JStr ''2020-05-02'')]]),
          (''CompletedJobs'', JArr [JObj [(''url'', JStr ''v1''), (''startedOn'', JStr ''2020-05-01''), (''status'', JStr ''Finished'')]]),
          (''Finished'', JObj [(''url'', JStr ''v1'')]), (''Failed'', JObj [(''reason'', JStr ''boom'')])] \<noteq> JNull
   \<and> pending_render (JArr [JObj [(''url'', JStr ''v2''), (''startedOn'', JStr ''2020-05-02'')]]) = None
   \<and> JobList_render True (JArr [JObj [(''url'', JStr ''v1''), (''startedOn'', JStr ''2020-05-01''), (''status'', JStr ''Finished'')]]) = None
   \<and> onmessage (Wellformed (JObj [(''PendingJobs'', JArr [JObj [(''url'', JStr ''v2''), (''startedOn'', JStr ''2020-05-02'')]]),
          (''CompletedJobs'', JArr [JObj [(''url'', JStr ''v1''), (''startedOn'', JStr ''2020-05-01''), (''status'', JStr ''Finished'')]]),
          (''Finished'', JObj [(''url'', JStr ''v1'')]), (''Failed'', JObj [(''reason'', JStr ''boom'')])])) initial =
     Returned
       (initial\<lparr> pendingJobs := JArr [JObj [(''url'', JStr ''v2''), (''startedOn'', JStr ''2020-05-02'')]],
           completedJobs := JArr [JObj [(''url'', JStr ''v1''), (''startedOn'', JStr ''2020-05-01''), (''status'', JStr ''Finished'')]],
           toasts :=
             [\<lparr> type = success, title = ''Job complete!'',
                description = Some (JStr ''v1''), time = 5000 \<rparr>,
              \<lparr> type = error, title = ''Job failed!'',
                description = Some (JStr ''boom''), time = 0 \<rparr>],
           console :=
             [Log (Value (JObj [(''PendingJobs'', JArr [JObj [(''url'', JStr ''v2''), (''startedOn'', JStr ''2020-05-02'')]]),
          (''CompletedJobs'', JArr [JObj [(''url'', JStr ''v1''), (''startedOn'', JStr ''2020-05-01''), (''status'', JStr ''Finished'')]]),
          (''Finished'', JObj [(''url'', JStr ''v1'')]), (''Failed'', JObj [(''reason'', JStr ''boom'')])])),
              Error (Value (JObj [(''reason'', JStr ''boom'')]))] \<rparr>)
   \<and> fires (JObj [(''PendingJobs'', JNull), (''CompletedJobs'', JNum 0),
          (''Finished'', JStr []), (''Failed'', JBool False)]) ''PendingJobs'' = None
   \<and> fires (JObj [(''PendingJobs'', JNull), (''CompletedJobs'', JNum 0),
          (''Finished'', JStr []), (''Failed'', JBool False)]) ''CompletedJobs'' = None
   \<and> fires (JObj [(''PendingJobs'', JNull), (''CompletedJobs'', JNum 0),
          (''Finished'', JStr []), (''Failed'', JBool False)]) ''Finished'' = None
   \<and> fires (JObj [(''PendingJobs'', JNull), (''CompletedJobs'', JNum 0),
          (''Finished'', JStr []), (''Failed'', JBool False)]) ''Failed'' = None
   \<and> onmessage (Wellformed (JObj [(''PendingJobs'', JNull), (''CompletedJobs'', JNum 0),
          (''Finished'', JStr []), (''Failed'', JBool False)])) initial =
     Returned (initial\<lparr>console := [Log (Value (JObj [(''PendingJobs'', JNull), (''CompletedJobs'', JNum 0),
          (''Finished'', JStr []), (''Failed'', JBool False)]))]\<rparr>)
   \<and> fires (JObj [(''PendingJobs'', JBool True), (''Failed'', JObj [(''reason'', JStr ''boom'')])]) ''PendingJobs'' = Some (JBool True)
   \<and> pending_render (JBool True) = Some TypeError
   \<and> onmessage (Wellformed (JObj [(''PendingJobs'', JBool True), (''Failed'', JObj [(''reason'', JStr ''boom'')])])) initial =
     Threw TypeError
       (initial\<lparr> pendingJobs := JBool True,
           console := [Log (Value (JObj [(''PendingJobs'', JBool True), (''Failed'', JObj [(''reason'', JStr ''boom'')])]))] \<rparr>)
   \<and> fires (JObj [(''PendingJobs'', JArr [JObj [(''url'', JStr ''v2''), (''startedOn'', JStr ''2020-05-02'')]]),
          (''CompletedJobs'', JArr [JObj [(''url'', JStr ''v2''), (''startedOn'', JStr ''2020-05-02'')]]), (''Finished'', JObj [(''url'', JStr ''v1'')])]) ''CompletedJobs'' = Some (JArr [JObj [(''url'', JStr ''v2''), (''startedOn'', JStr ''2020-05-02'')]])
   \<and> JobList_render True (JArr [JObj [(''url'', JStr ''v2''), (''startedOn'', JStr ''2020-05-02'')]]) = Some TypeError
   \<and> onmessage (Wellformed (JObj [(''PendingJobs'', JArr [JObj [(''url'', JStr ''v2''), (''startedOn'', JStr ''2020-05-02'')]]),
          (''CompletedJobs'', JArr [JObj [(''url'', JStr ''v2''), (''startedOn'', JStr ''2020-05-02'')]]), (''Finished'', JObj [(''url'', JStr ''v1'')])])) initial =
     Threw TypeError
       (initial\<lparr> pendingJobs := JArr [JObj [(''url'', JStr ''v2''), (''startedOn'', JStr ''2020-05-02'')]],
           completedJobs := JArr [JObj [(''url'', JStr ''v2''), (''startedOn'', JStr ''2020-05-02'')]],
           console := [Log (Value (JObj [(''PendingJobs'', JArr [JObj [(''url'', JStr ''v2''), (''startedOn'', JStr ''2020-05-02'')]]),
          (''CompletedJobs'', JArr [JObj [(''url'', JStr ''v2''), (''startedOn'', JStr ''2020-05-02'')]]), (''Finished'', JObj [(''url'', JStr ''v1'')])]))] \<rparr>)"
  using rules_fire_in_order
      [where st = initial and message = "JObj [(''PendingJobs'', JArr [JObj [(''url'', JStr ''v2''), (''startedOn'', JStr ''2020-05-02'')]]),
          (''CompletedJobs'', JArr [JObj [(''url'', JStr ''v1''), (''startedOn'', JStr ''2020-05-01''), (''status'', JStr ''Finished'')]]),
          (''Finished'', JObj [(''url'', JStr ''v1'')]), (''Failed'', JObj [(''reason'', JStr ''boom'')])]"]
    rules_fire_in_order
      [where st = initial and message = "JObj [(''PendingJobs'', JNull), (''CompletedJobs'', JNum 0),
          (''Finished'', JStr []), (''Failed'', JBool False)]"]
    rules_fire_in_order
      [where st = initial and message = "JObj [(''PendingJobs'', JBool True), (''Failed'', JObj [(''reason'', JStr ''boom'')])]"
         and p = "JBool True" and e = TypeError]
    rules_fire_in_order
      [where st = initial and message = "JObj [(''PendingJobs'', JArr [JObj [(''url'', JStr ''v2''), (''startedOn'', JStr ''2020-05-02'')]]),
          (''CompletedJobs'', JArr [JObj [(''url'', JStr ''v2''), (''startedOn'', JStr ''2020-05-02'')]]), (''Finished'', JObj [(''url'', JStr ''v1'')])]"
         and c = "JArr [JObj [(''url'', JStr ''v2''), (''startedOn'', JStr ''2020-05-02'')]]" and e = TypeError]
  by (simp add: fires_def field_def is_zero_def initial_def JobList_render_def
      row_returns_def row_mounts_def jobStatus_returns_def link_text_def defined_and_def
      pending_render_def count_shown_def)

end
